theory Spec2Isabelle
  imports Main "HOL-Library.Sublist"
begin

section \<open>Data model of the service (src/blueapi/service/main.py)\<close>

text \<open>
  The REST handlers of \<^verbatim>\<open>main.py\<close> are embedded as functions over an explicit
  \<open>Handler\<close> value. The worker behind \<^verbatim>\<open>handler.worker\<close>, the request and
  response models of \<^verbatim>\<open>.model\<close> and the catalogue in \<^verbatim>\<open>handler.context\<close>
  are declared in modules that are not among the sources at hand; they enter the
  embedding as parameters (\<open>worker_ops\<close>, \<open>from_plan\<close>, \<open>from_device\<close>) or as
  records with exactly the fields the handlers read.
\<close>

text \<open>
  Modelled from the spec: the enumeration \<^verbatim>\<open>WorkerState\<close> of
  \<^verbatim>\<open>blueapi.worker\<close>, whose declaration is missing. Section 3 of the specification
  gives it as the closed enumeration IDLE, RUNNING, PAUSED; the handlers and their
  tests name exactly these three members.
\<close>

datatype WorkerState = IDLE | RUNNING | PAUSED

text \<open>
  JSON values, as Python's \<^verbatim>\<open>json\<close> module and \<^verbatim>\<open>requests\<close> hand them to the
  program (numbers are integers here; no claim reads a number).
\<close>

datatype json =
    JNull
  | JBool bool
  | JInt int
  | JString string
  | JArray "json list"
  | JObject "(string \<times> json) list"

text \<open>
  Modelled from the spec: the task definition \<^verbatim>\<open>RunPlan\<close> (a name and a parameter
  bag) and the record \<^verbatim>\<open>TrackableTask\<close> of \<^verbatim>\<open>blueapi.worker\<close>, as section 3 of
  the specification lists their fields. The handlers read only \<^verbatim>\<open>is_complete\<close>.
\<close>

record RunPlan =
  name :: string
  params :: "(string \<times> json) list"

record TrackableTask =
  task_id :: string
  task :: RunPlan
  is_complete :: bool
  errors :: "string list"

text \<open>
  The request and response models of \<^verbatim>\<open>.model\<close>, with the fields the handlers use:
  \<^verbatim>\<open>StateChangeRequest.new_state\<close>, \<^verbatim>\<open>StateChangeRequest.defer\<close> (the tests send
  true, false and null, so it is optional), \<^verbatim>\<open>WorkerTask.task_id\<close> (compared with
  \<^verbatim>\<open>None\<close> in \<^verbatim>\<open>update_task\<close>) and \<^verbatim>\<open>TaskResponse.task_id\<close>. The field
  \<^verbatim>\<open>defer\<close> is written \<open>defer'\<close>, and the three fields \<^verbatim>\<open>task_id\<close> have a
  name each.
\<close>

record StateChangeRequest =
  new_state :: WorkerState
  defer' :: "bool option"

record WorkerTask =
  worker_task_id :: "string option"

record TaskResponse =
  response_task_id :: string

subsection \<open>The worker as a parameter\<close>

text \<open>
  The methods of \<^verbatim>\<open>handler.worker\<close> that the handlers call. \<open>'w\<close> is whatever the
  worker keeps (its state cell, its registry, its engine). \<^verbatim>\<open>state\<close>,
  \<^verbatim>\<open>get_active_task\<close> and \<^verbatim>\<open>get_pending_task\<close> read; the other four act on the
  worker and return it changed. Section 4.3 of the specification gives none of them a
  failure outcome on the paths where the handlers reach them, so each returns a value.
\<close>

record 'w worker_ops =
  worker_state :: "'w \<Rightarrow> WorkerState"
  worker_pause :: "bool option \<Rightarrow> 'w \<Rightarrow> 'w"
  worker_resume :: "'w \<Rightarrow> 'w"
  worker_get_active_task :: "'w \<Rightarrow> TrackableTask option"
  worker_get_pending_task :: "string \<Rightarrow> 'w \<Rightarrow> TrackableTask option"
  worker_begin_task :: "string \<Rightarrow> 'w \<Rightarrow> 'w"
  worker_submit_task :: "RunPlan \<Rightarrow> 'w \<Rightarrow> string \<times> 'w"

text \<open>
  The commands a handler sends to the worker are recorded in the order they are sent,
  the way the tests count them with \<^verbatim>\<open>MagicMock\<close>. The engine is reached through
  \<^verbatim>\<open>worker.pause\<close> and \<^verbatim>\<open>worker.resume\<close> only, so a handler that sends neither
  command has not invoked the engine.
\<close>

datatype worker_call =
    Pause "bool option"
  | Resume
  | Begin_task string
  | Submit_task RunPlan

text \<open>
  \<^verbatim>\<open>Handler\<close>: the catalogue of \<^verbatim>\<open>handler.context\<close> (two dictionaries keyed by name),
  the worker, and the record of the commands sent to it.
\<close>

record ('w, 'p, 'd) Handler =
  context_plans :: "string \<rightharpoonup> 'p"
  context_devices :: "string \<rightharpoonup> 'd"
  worker :: 'w
  worker_calls :: "worker_call list"

definition call_pause ::
  "'w worker_ops \<Rightarrow> bool option \<Rightarrow> ('w, 'p, 'd) Handler \<Rightarrow> ('w, 'p, 'd) Handler" where
  "call_pause ops d handler =
     handler\<lparr>worker := worker_pause ops d (worker handler),
             worker_calls := worker_calls handler @ [Pause d]\<rparr>"

definition call_resume ::
  "'w worker_ops \<Rightarrow> ('w, 'p, 'd) Handler \<Rightarrow> ('w, 'p, 'd) Handler" where
  "call_resume ops handler =
     handler\<lparr>worker := worker_resume ops (worker handler),
             worker_calls := worker_calls handler @ [Resume]\<rparr>"

definition call_begin_task ::
  "'w worker_ops \<Rightarrow> string \<Rightarrow> ('w, 'p, 'd) Handler \<Rightarrow> ('w, 'p, 'd) Handler" where
  "call_begin_task ops tid handler =
     handler\<lparr>worker := worker_begin_task ops tid (worker handler),
             worker_calls := worker_calls handler @ [Begin_task tid]\<rparr>"

definition call_submit_task ::
  "'w worker_ops \<Rightarrow> RunPlan \<Rightarrow> ('w, 'p, 'd) Handler \<Rightarrow> string \<times> ('w, 'p, 'd) Handler" where
  "call_submit_task ops t handler =
     (case worker_submit_task ops t (worker handler) of
        (tid, w') \<Rightarrow>
          (tid, handler\<lparr>worker := w', worker_calls := worker_calls handler @ [Submit_task t]\<rparr>))"

subsection \<open>What the web framework does with a handler's result\<close>

text \<open>
  A handler receives a mutable \<^verbatim>\<open>Response\<close> whose status code is unset and whose
  headers are empty; it either returns a value or raises \<^verbatim>\<open>HTTPException\<close>. The
  framework answers a returned value with the status the handler stored in the
  \<^verbatim>\<open>Response\<close>, or else the \<^verbatim>\<open>status_code\<close> of the route's decorator, or else 200,
  and with the headers the handler stored; it answers \<^verbatim>\<open>HTTPException\<close> with the
  exception's status and detail. The middleware \<^verbatim>\<open>add_api_version_header\<close> then adds
  one header to every response.
\<close>

record Response =
  status_code :: "nat option"
  headers :: "string \<rightharpoonup> string"

definition new_Response :: Response where
  "new_Response = \<lparr>status_code = None, headers = Map.empty\<rparr>"

datatype 'a handler_result = Returns 'a | HTTPException nat string

datatype 'a content = Model 'a | Detail string

record 'a http_response =
  status :: nat
  response_headers :: "string \<rightharpoonup> string"
  content :: "'a content"

definition REST_API_VERSION :: string where
  "REST_API_VERSION = ''0.0.3''"

definition fastapi_response :: "nat \<Rightarrow> Response \<Rightarrow> 'a handler_result \<Rightarrow> 'a http_response" where
  "fastapi_response default_status response result =
     (case result of
        Returns v \<Rightarrow>
          \<lparr>status = (case status_code response of None \<Rightarrow> default_status | Some c \<Rightarrow> c),
           response_headers = headers response,
           content = Model v\<rparr>
      | HTTPException c detail \<Rightarrow>
          \<lparr>status = c, response_headers = Map.empty, content = Detail detail\<rparr>)"

definition add_api_version_header :: "'a http_response \<Rightarrow> 'a http_response" where
  "add_api_version_header response =
     response\<lparr>response_headers := (response_headers response)(''X-API-Version'' \<mapsto> REST_API_VERSION)\<rparr>"

abbreviation HTTP_202_ACCEPTED :: nat where "HTTP_202_ACCEPTED \<equiv> 202"
abbreviation HTTP_400_BAD_REQUEST :: nat where "HTTP_400_BAD_REQUEST \<equiv> 400"

section \<open>The worker's state: GET and PUT /worker/state\<close>

definition get_state ::
  "'w worker_ops \<Rightarrow> ('w, 'p, 'd) Handler \<Rightarrow> WorkerState \<times> ('w, 'p, 'd) Handler" where
  "get_state ops handler = (worker_state ops (worker handler), handler)"

definition get_worker_state ::
  "'w worker_ops \<Rightarrow> ('w, 'p, 'd) Handler \<Rightarrow> WorkerState http_response \<times> ('w, 'p, 'd) Handler" where
  "get_worker_state ops handler =
     (case get_state ops handler of
        (v, handler') \<Rightarrow>
          (add_api_version_header (fastapi_response 200 new_Response (Returns v)), handler'))"

text \<open>Map of current state to the allowed new states.\<close>

definition ALLOWED_TRANSITIONS :: "WorkerState \<rightharpoonup> WorkerState set" where
  "ALLOWED_TRANSITIONS = [RUNNING \<mapsto> {PAUSED}, PAUSED \<mapsto> {RUNNING}]"

definition set_state ::
  "'w worker_ops \<Rightarrow> StateChangeRequest \<Rightarrow> Response \<Rightarrow> ('w, 'p, 'd) Handler
     \<Rightarrow> WorkerState \<times> Response \<times> ('w, 'p, 'd) Handler" where
  "set_state ops state_change_request response handler =
     (let current_state = worker_state ops (worker handler);
          new_st = new_state state_change_request
      in if (case ALLOWED_TRANSITIONS current_state of
               None \<Rightarrow> False
             | Some targets \<Rightarrow> new_st \<in> targets)
         then
           (let response' = response\<lparr>status_code := Some HTTP_202_ACCEPTED\<rparr>;
                handler' =
                  (if new_st = PAUSED then call_pause ops (defer' state_change_request) handler
                   else if new_st = RUNNING then call_resume ops handler
                   else handler)
            in (worker_state ops (worker handler'), response', handler'))
         else (worker_state ops (worker handler), response, handler))"

definition put_worker_state ::
  "'w worker_ops \<Rightarrow> StateChangeRequest \<Rightarrow> ('w, 'p, 'd) Handler
     \<Rightarrow> WorkerState http_response \<times> ('w, 'p, 'd) Handler" where
  "put_worker_state ops state_change_request handler =
     (case set_state ops state_change_request new_Response handler of
        (v, response, handler') \<Rightarrow>
          (add_api_version_header (fastapi_response HTTP_400_BAD_REQUEST response (Returns v)),
           handler'))"

section \<open>Tasks: POST /tasks, PUT /worker/task, GET /tasks/{task_id}\<close>

text \<open>\<^verbatim>\<open>Request\<close>: the handler reads only \<^verbatim>\<open>request.url\<close>, formatted as text.\<close>

record Request =
  url :: string

definition submit_task ::
  "'w worker_ops \<Rightarrow> Request \<Rightarrow> Response \<Rightarrow> RunPlan \<Rightarrow> ('w, 'p, 'd) Handler
     \<Rightarrow> TaskResponse \<times> Response \<times> ('w, 'p, 'd) Handler" where
  "submit_task ops request response t handler =
     (case call_submit_task ops t handler of
        (tid, handler') \<Rightarrow>
          (\<lparr>response_task_id = tid\<rparr>,
           response\<lparr>headers := (headers response)(''Location'' \<mapsto> url request @ ''/'' @ tid)\<rparr>,
           handler'))"

definition post_tasks ::
  "'w worker_ops \<Rightarrow> Request \<Rightarrow> RunPlan \<Rightarrow> ('w, 'p, 'd) Handler
     \<Rightarrow> TaskResponse http_response \<times> ('w, 'p, 'd) Handler" where
  "post_tasks ops request t handler =
     (case submit_task ops request new_Response t handler of
        (v, response, handler') \<Rightarrow>
          (add_api_version_header (fastapi_response 201 response (Returns v)), handler'))"

definition update_task ::
  "'w worker_ops \<Rightarrow> WorkerTask \<Rightarrow> ('w, 'p, 'd) Handler
     \<Rightarrow> WorkerTask handler_result \<times> ('w, 'p, 'd) Handler" where
  "update_task ops t handler =
     (let active_task = worker_get_active_task ops (worker handler)
      in if (case active_task of None \<Rightarrow> False | Some a \<Rightarrow> \<not> is_complete a)
         then (HTTPException 409 ''Worker already active'', handler)
         else (case worker_task_id t of
                 Some tid \<Rightarrow> (Returns t, call_begin_task ops tid handler)
               | None \<Rightarrow> (Returns t, handler)))"

definition put_worker_task ::
  "'w worker_ops \<Rightarrow> WorkerTask \<Rightarrow> ('w, 'p, 'd) Handler
     \<Rightarrow> WorkerTask http_response \<times> ('w, 'p, 'd) Handler" where
  "put_worker_task ops t handler =
     (case update_task ops t handler of
        (result, handler') \<Rightarrow>
          (add_api_version_header (fastapi_response 200 new_Response result), handler'))"

definition get_task ::
  "'w worker_ops \<Rightarrow> string \<Rightarrow> ('w, 'p, 'd) Handler
     \<Rightarrow> TrackableTask handler_result \<times> ('w, 'p, 'd) Handler" where
  "get_task ops tid handler =
     (case worker_get_pending_task ops tid (worker handler) of
        Some t \<Rightarrow> (Returns t, handler)
      | None \<Rightarrow> (HTTPException 404 ''Item not found'', handler))"

definition get_tasks_by_id ::
  "'w worker_ops \<Rightarrow> string \<Rightarrow> ('w, 'p, 'd) Handler
     \<Rightarrow> TrackableTask http_response \<times> ('w, 'p, 'd) Handler" where
  "get_tasks_by_id ops tid handler =
     (case get_task ops tid handler of
        (result, handler') \<Rightarrow>
          (add_api_version_header (fastapi_response 200 new_Response result), handler'))"

section \<open>The catalogue: GET /plans/{name}, GET /devices/{name}\<close>

text \<open>
  \<^verbatim>\<open>PlanModel.from_plan\<close> and \<^verbatim>\<open>DeviceModel.from_device\<close> belong to the missing
  \<^verbatim>\<open>.model\<close>; they are the parameters \<open>from_plan\<close> and \<open>from_device\<close>. The
  subscript \<^verbatim>\<open>plans[name]\<close> raises \<^verbatim>\<open>KeyError\<close> for a missing key, which the
  handler turns into \<^verbatim>\<open>HTTPException(404)\<close>.
\<close>

definition get_plan_by_name ::
  "('p \<Rightarrow> 'pm) \<Rightarrow> string \<Rightarrow> ('w, 'p, 'd) Handler \<Rightarrow> 'pm handler_result \<times> ('w, 'p, 'd) Handler" where
  "get_plan_by_name from_plan nm handler =
     (case context_plans handler nm of
        Some plan \<Rightarrow> (Returns (from_plan plan), handler)
      | None \<Rightarrow> (HTTPException 404 ''Item not found'', handler))"

definition get_plans_by_name ::
  "('p \<Rightarrow> 'pm) \<Rightarrow> string \<Rightarrow> ('w, 'p, 'd) Handler \<Rightarrow> 'pm http_response \<times> ('w, 'p, 'd) Handler" where
  "get_plans_by_name from_plan nm handler =
     (case get_plan_by_name from_plan nm handler of
        (result, handler') \<Rightarrow>
          (add_api_version_header (fastapi_response 200 new_Response result), handler'))"

definition get_device_by_name ::
  "('d \<Rightarrow> 'dm) \<Rightarrow> string \<Rightarrow> ('w, 'p, 'd) Handler \<Rightarrow> 'dm handler_result \<times> ('w, 'p, 'd) Handler" where
  "get_device_by_name from_device nm handler =
     (case context_devices handler nm of
        Some device \<Rightarrow> (Returns (from_device device), handler)
      | None \<Rightarrow> (HTTPException 404 ''Item not found'', handler))"

definition get_devices_by_name ::
  "('d \<Rightarrow> 'dm) \<Rightarrow> string \<Rightarrow> ('w, 'p, 'd) Handler \<Rightarrow> 'dm http_response \<times> ('w, 'p, 'd) Handler" where
  "get_devices_by_name from_device nm handler =
     (case get_device_by_name from_device nm handler of
        (result, handler') \<Rightarrow>
          (add_api_version_header (fastapi_response 200 new_Response result), handler'))"

section \<open>The command-line client (src/blueapi/cli/cli.py)\<close>

text \<open>
  The controller commands talk to the server with \<^verbatim>\<open>requests\<close> and to the message
  bus with \<^verbatim>\<open>AmqClient\<close>; both are outside the sources at hand. A call to either
  returns a value, raises, or never returns (a request without a timeout, a wait for a
  message that never comes).
\<close>

datatype exception =
    ConnectionError
  | KeyError
  | TypeError
  | JSONDecodeError
  | Exception string

datatype 'a outcome = Returned 'a | Raised exception | Blocks

text \<open>What the program reads of a \<^verbatim>\<open>requests.Response\<close>: its status code and the
  result of \<^verbatim>\<open>.json()\<close>, which raises when the body is not JSON.\<close>

record requests_response =
  resp_status_code :: nat
  resp_json :: "exception + json"

text \<open>The steps a command takes, in the order it takes them.\<close>

datatype cli_event =
    Amq_enter
  | Amq_exit
  | Requests_get string
  | Requests_put string "json option"
  | Subscribe_to_topics json
  | Wait_for_complete
  | Print string
  | Pprint json

text \<open>
  \<open>'x\<close> is the world outside the program (the server, the bus). \<open>py_str\<close> is
  Python's \<^verbatim>\<open>str\<close> on a JSON value, as an f-string applies it.
\<close>

record 'x cli_ops =
  requests_get :: "string \<Rightarrow> 'x \<Rightarrow> requests_response outcome \<times> 'x"
  requests_put :: "string \<Rightarrow> json option \<Rightarrow> 'x \<Rightarrow> requests_response outcome \<times> 'x"
  json_loads :: "string option \<Rightarrow> exception + json"
  py_str :: "json \<Rightarrow> string"
  amq_enter :: "'x \<Rightarrow> unit outcome \<times> 'x"
  amq_exit :: "'x \<Rightarrow> unit outcome \<times> 'x"
  amq_subscribe_to_topics :: "json \<Rightarrow> 'x \<Rightarrow> unit outcome \<times> 'x"
  amq_wait_for_complete :: "'x \<Rightarrow> unit outcome \<times> 'x"

record 'x cli_state =
  world :: 'x
  events :: "cli_event list"

type_synonym ('a, 'x) command = "'x cli_state \<Rightarrow> 'a outcome \<times> 'x cli_state"

definition and_then :: "('a, 'x) command \<Rightarrow> ('a \<Rightarrow> ('b, 'x) command) \<Rightarrow> ('b, 'x) command" where
  "and_then m k s =
     (case m s of
        (Returned v, s') \<Rightarrow> k v s'
      | (Raised e, s') \<Rightarrow> (Raised e, s')
      | (Blocks, s') \<Rightarrow> (Blocks, s'))"

definition external :: "cli_event \<Rightarrow> ('x \<Rightarrow> 'a outcome \<times> 'x) \<Rightarrow> ('a, 'x) command" where
  "external ev f s =
     (case f (world s) of (r, x') \<Rightarrow> (r, \<lparr>world = x', events = events s @ [ev]\<rparr>))"

definition evaluate :: "exception + 'a \<Rightarrow> ('a, 'x) command" where
  "evaluate r s = (case r of Inl e \<Rightarrow> (Raised e, s) | Inr v \<Rightarrow> (Returned v, s))"

definition print' :: "string \<Rightarrow> (unit, 'x) command" where
  "print' text s = (Returned (), s\<lparr>events := events s @ [Print text]\<rparr>)"

definition pprint :: "json \<Rightarrow> (unit, 'x) command" where
  "pprint v s = (Returned (), s\<lparr>events := events s @ [Pprint v]\<rparr>)"

text \<open>Decimal text of a number, as an f-string formats an \<^verbatim>\<open>int\<close>.\<close>

fun str_nat :: "nat \<Rightarrow> string" where
  "str_nat n =
     (if n < 10 then [''0123456789'' ! n]
      else str_nat (n div 10) @ [''0123456789'' ! (n mod 10)])"

declare str_nat.simps [simp del]

text \<open>\<^verbatim>\<open>value[key]\<close> on a JSON value: only a dictionary takes a string key.\<close>

fun getitem :: "json \<Rightarrow> string \<Rightarrow> exception + json" where
  "getitem (JObject items) key =
     (case map_of items key of None \<Rightarrow> Inl KeyError | Some v \<Rightarrow> Inr v)"
| "getitem _ key = Inl TypeError"

definition response_json :: "requests_response \<Rightarrow> (json, 'x) command" where
  "response_json resp = evaluate (resp_json resp)"

text \<open>\<^verbatim>\<open>ApplicationConfig\<close>: the commands read \<^verbatim>\<open>config.api.host\<close> and
  \<^verbatim>\<open>config.api.port\<close>.\<close>

record ApplicationConfig =
  api_host :: string
  api_port :: nat

definition api_url :: "ApplicationConfig \<Rightarrow> string \<Rightarrow> string" where
  "api_url config path = ''http://'' @ api_host config @ '':'' @ str_nat (api_port config) @ path"

definition check_connection :: "(unit, 'x) command \<Rightarrow> (unit, 'x) command" where
  "check_connection func s =
     (case func s of
        (Raised ConnectionError, s') \<Rightarrow>
          print' ''Failed to establish connection to FastAPI server.'' s'
      | (Raised e, s') \<Rightarrow> (Raised e, s')
      | (Returned v, s') \<Rightarrow> (Returned (), s')
      | (Blocks, s') \<Rightarrow> (Blocks, s'))"

text \<open>The two commands of this module named \<^verbatim>\<open>get_plans\<close> and \<^verbatim>\<open>get_devices\<close>
  (the service has handlers of the same names).\<close>

definition cli_get_plans :: "'x cli_ops \<Rightarrow> ApplicationConfig \<Rightarrow> (unit, 'x) command" where
  "cli_get_plans ops config =
     and_then (external (Requests_get (api_url config ''/plans''))
                 (requests_get ops (api_url config ''/plans''))) (\<lambda>resp.
     and_then (print' (''Response returned with '' @ str_nat (resp_status_code resp) @ '': '')) (\<lambda>_.
     and_then (response_json resp) (\<lambda>body.
     pprint body)))"

definition cli_get_devices :: "'x cli_ops \<Rightarrow> ApplicationConfig \<Rightarrow> (unit, 'x) command" where
  "cli_get_devices ops config =
     and_then (external (Requests_get (api_url config ''/devices''))
                 (requests_get ops (api_url config ''/devices''))) (\<lambda>resp.
     and_then (print' (''Response returned with '' @ str_nat (resp_status_code resp) @ '': '')) (\<lambda>_.
     and_then (response_json resp) (\<lambda>body.
     pprint body)))"

text \<open>
  \<^verbatim>\<open>with amq_client:\<close> enters the client, runs the body and leaves the client when
  the body returns or raises; an exception of the body is raised again after leaving.
  Building the client object before the block is not a step of its own here.
\<close>

definition with_amq_client :: "'x cli_ops \<Rightarrow> (unit, 'x) command \<Rightarrow> (unit, 'x) command" where
  "with_amq_client ops body =
     and_then (external Amq_enter (amq_enter ops)) (\<lambda>_ s.
       case body s of
         (Returned v, s') \<Rightarrow> external Amq_exit (amq_exit ops) s'
       | (Raised e, s') \<Rightarrow> and_then (external Amq_exit (amq_exit ops)) (\<lambda>_. evaluate (Inl e)) s'
       | (Blocks, s') \<Rightarrow> (Blocks, s'))"

text \<open>The body of \<^verbatim>\<open>run_plan\<close> under \<^verbatim>\<open>with amq_client:\<close>. The option \<^verbatim>\<open>id\<close> is
  accepted by the command and not read.\<close>

definition run_plan_body ::
  "'x cli_ops \<Rightarrow> ApplicationConfig \<Rightarrow> string \<Rightarrow> string option \<Rightarrow> (unit, 'x) command" where
  "run_plan_body ops config nm parameters =
     and_then (evaluate (json_loads ops parameters)) (\<lambda>loaded.
     and_then (external
                 (Requests_put (api_url config ''/task'')
                    (Some (JObject [(''name'', JString nm), (''params'', loaded)])))
                 (requests_put ops (api_url config ''/task'')
                    (Some (JObject [(''name'', JString nm), (''params'', loaded)])))) (\<lambda>create_resp.
     and_then (response_json create_resp) (\<lambda>created.
     and_then (evaluate (getitem created ''taskId'')) (\<lambda>tid.
     and_then (external (Subscribe_to_topics tid) (amq_subscribe_to_topics ops tid)) (\<lambda>_.
     and_then (external
                 (Requests_put (api_url config (''/started/'' @ py_str ops tid)) None)
                 (requests_put ops (api_url config (''/started/'' @ py_str ops tid)) None)) (\<lambda>started_resp.
     and_then (print' (''Response returned with '' @ str_nat (resp_status_code started_resp))) (\<lambda>_.
     external Wait_for_complete (amq_wait_for_complete ops))))))))"

definition run_plan ::
  "'x cli_ops \<Rightarrow> ApplicationConfig \<Rightarrow> string \<Rightarrow> string option \<Rightarrow> (unit, 'x) command" where
  "run_plan ops config nm parameters =
     with_amq_client ops (run_plan_body ops config nm parameters)"

text \<open>The commands as the command group registers them: wrapped by
  \<^verbatim>\<open>check_connection\<close>.\<close>

definition controller_plans :: "'x cli_ops \<Rightarrow> ApplicationConfig \<Rightarrow> (unit, 'x) command" where
  "controller_plans ops config = check_connection (cli_get_plans ops config)"

definition controller_devices :: "'x cli_ops \<Rightarrow> ApplicationConfig \<Rightarrow> (unit, 'x) command" where
  "controller_devices ops config = check_connection (cli_get_devices ops config)"

definition controller_run ::
  "'x cli_ops \<Rightarrow> ApplicationConfig \<Rightarrow> string \<Rightarrow> string option \<Rightarrow> (unit, 'x) command" where
  "controller_run ops config nm parameters = check_connection (run_plan ops config nm parameters)"

text \<open>
  Counting invocations: \<open>counted func\<close> is \<open>func\<close> run in a world that also holds a
  counter, which every invocation of \<open>func\<close> advances by one.
\<close>

definition counted :: "(unit, 'x) command \<Rightarrow> (unit, nat \<times> 'x) command" where
  "counted func s =
     (case func \<lparr>world = snd (world s), events = events s\<rparr> of
        (r, s') \<Rightarrow> (r, \<lparr>world = (Suc (fst (world s)), world s'), events = events s'\<rparr>))"




section \<open>Concrete workers and worlds\<close>

text \<open>
  The worker of the tests' fixture \<^verbatim>\<open>mockable_state_machine\<close>: the engine's pause
  and resume report the new state at once. Submitted tasks are numbered.
\<close>

record mock_worker =
  mock_state :: WorkerState
  mock_pending :: "(string \<times> TrackableTask) list"
  mock_active :: "TrackableTask option"

definition mock_submit :: "RunPlan \<Rightarrow> mock_worker \<Rightarrow> string \<times> mock_worker" where
  "mock_submit t w =
     (let tid = ''task-'' @ str_nat (length (mock_pending w))
      in (tid, w\<lparr>mock_pending := mock_pending w @
                  [(tid, \<lparr>task_id = tid, task = t, is_complete = False, errors = []\<rparr>)]\<rparr>))"

definition mock_begin :: "string \<Rightarrow> mock_worker \<Rightarrow> mock_worker" where
  "mock_begin tid w =
     (case map_of (mock_pending w) tid of
        None \<Rightarrow> w
      | Some t \<Rightarrow> w\<lparr>mock_active := Some t, mock_state := RUNNING\<rparr>)"

definition mock_ops :: "mock_worker worker_ops" where
  "mock_ops =
     \<lparr>worker_state = mock_state,
      worker_pause = (\<lambda>d w. w\<lparr>mock_state := PAUSED\<rparr>),
      worker_resume = (\<lambda>w. w\<lparr>mock_state := RUNNING\<rparr>),
      worker_get_active_task = mock_active,
      worker_get_pending_task = (\<lambda>tid w. map_of (mock_pending w) tid),
      worker_begin_task = mock_begin,
      worker_submit_task = mock_submit\<rparr>"


definition count_task :: RunPlan where
  "count_task = \<lparr>name = ''count'', params = [(''detectors'', JArray [JString ''x''])]\<rparr>"

definition tracked_count :: TrackableTask where
  "tracked_count = \<lparr>task_id = ''task-0'', task = count_task, is_complete = False, errors = []\<rparr>"

definition finished_count :: TrackableTask where
  "finished_count = tracked_count\<lparr>is_complete := True\<rparr>"

definition mock_handler :: "WorkerState \<Rightarrow> TrackableTask option \<Rightarrow> (mock_worker, string, string) Handler" where
  "mock_handler st active =
     \<lparr>context_plans = [''my-plan'' \<mapsto> ''my-plan''],
      context_devices = [''my-device'' \<mapsto> ''my-device''],
      worker = \<lparr>mock_state = st, mock_pending = [(''task-0'', tracked_count)], mock_active = active\<rparr>,
      worker_calls = []\<rparr>"

text \<open>Two worlds for the client: a server that answers every request with 200 and a
  task identifier, and a server that cannot be reached.\<close>

definition answering_ops :: "unit cli_ops" where
  "answering_ops =
     \<lparr>requests_get = (\<lambda>u x. (Returned \<lparr>resp_status_code = 200, resp_json = Inr (JObject [])\<rparr>, x)),
      requests_put = (\<lambda>u b x.
         (Returned \<lparr>resp_status_code = 200,
                    resp_json = Inr (JObject [(''taskId'', JString ''abc'')])\<rparr>, x)),
      json_loads = (\<lambda>text. case text of None \<Rightarrow> Inl TypeError | Some t \<Rightarrow> Inr (JObject [])),
      py_str = (\<lambda>v. case v of JString t \<Rightarrow> t | _ \<Rightarrow> ''?''),
      amq_enter = (\<lambda>x. (Returned (), x)),
      amq_exit = (\<lambda>x. (Returned (), x)),
      amq_subscribe_to_topics = (\<lambda>t x. (Returned (), x)),
      amq_wait_for_complete = (\<lambda>x. (Returned (), x))\<rparr>"

definition unreachable_ops :: "unit cli_ops" where
  "unreachable_ops =
     answering_ops\<lparr>requests_get := (\<lambda>u x. (Raised ConnectionError, x)),
                   requests_put := (\<lambda>u b x. (Raised ConnectionError, x))\<rparr>"

definition local_config :: ApplicationConfig where
  "local_config = \<lparr>api_host = ''localhost'', api_port = 8000\<rparr>"

definition start_state :: "unit cli_state" where
  "start_state = \<lparr>world = (), events = []\<rparr>"

section \<open>Properties of PUT /worker/state\<close>

lemma allowed_iff:
  "(case ALLOWED_TRANSITIONS cur of None \<Rightarrow> False | Some targets \<Rightarrow> new \<in> targets)
     = ((cur, new) \<in> {(RUNNING, PAUSED), (PAUSED, RUNNING)})"
  by (cases cur; cases new) (simp_all add: ALLOWED_TRANSITIONS_def)

lemma set_state_rejected:
  assumes "(worker_state ops (worker h), new_state req) \<notin> {(RUNNING, PAUSED), (PAUSED, RUNNING)}"
  shows "set_state ops req response h = (worker_state ops (worker h), response, h)"
  using assms unfolding set_state_def Let_def allowed_iff by auto

lemma set_state_pause:
  assumes "worker_state ops (worker h) = RUNNING" and "new_state req = PAUSED"
  shows "set_state ops req response h =
           (worker_state ops (worker_pause ops (defer' req) (worker h)),
            response\<lparr>status_code := Some 202\<rparr>,
            call_pause ops (defer' req) h)"
  using assms unfolding set_state_def Let_def allowed_iff by (simp add: call_pause_def)

lemma set_state_resume:
  assumes "worker_state ops (worker h) = PAUSED" and "new_state req = RUNNING"
  shows "set_state ops req response h =
           (worker_state ops (worker_resume ops (worker h)),
            response\<lparr>status_code := Some 202\<rparr>,
            call_resume ops h)"
  using assms unfolding set_state_def Let_def allowed_iff by (simp add: call_resume_def)

lemma rendered_response [simp]:
  "status (add_api_version_header (fastapi_response d r (Returns v)))
     = (case status_code r of None \<Rightarrow> d | Some c \<Rightarrow> c)"
  "content (add_api_version_header (fastapi_response d r (Returns v))) = Model v"
  "status (add_api_version_header (fastapi_response d r (HTTPException c t))) = c"
  "content (add_api_version_header (fastapi_response d r (HTTPException c t))) = Detail t"
  by (simp_all add: add_api_version_header_def fastapi_response_def)

text \<open>
  Claim C1. Whenever the pair of the worker's current state and the requested state is
  outside the table RUNNING to PAUSED, PAUSED to RUNNING (and so whenever the worker is
  IDLE), PUT /worker/state answers 400, the handler with its worker is left exactly as
  it was, so the worker's state is the one before the request, and no command, hence
  neither pause nor resume, is sent to the worker.
\<close>

theorem set_state_rejects_outside_table:
  assumes "worker_state ops (worker h) = IDLE
           \<or> (worker_state ops (worker h), new_state req) \<notin> {(RUNNING, PAUSED), (PAUSED, RUNNING)}"
  shows "status (fst (put_worker_state ops req h)) = 400
         \<and> snd (put_worker_state ops req h) = h
         \<and> worker_state ops (worker (snd (put_worker_state ops req h))) = worker_state ops (worker h)
         \<and> worker_calls (snd (put_worker_state ops req h)) = worker_calls h"
proof -
  from assms
  have out: "(worker_state ops (worker h), new_state req) \<notin> {(RUNNING, PAUSED), (PAUSED, RUNNING)}"
    by auto
  have "put_worker_state ops req h =
          (add_api_version_header
             (fastapi_response 400 new_Response (Returns (worker_state ops (worker h)))), h)"
    unfolding put_worker_state_def by (simp add: set_state_rejected [OF out])
  then show ?thesis
    by (simp add: new_Response_def)
qed

theorem set_state_rejects_outside_table_witness:
  "status (fst (put_worker_state mock_ops \<lparr>new_state = RUNNING, defer' = None\<rparr> (mock_handler IDLE None))) = 400
   \<and> snd (put_worker_state mock_ops \<lparr>new_state = RUNNING, defer' = None\<rparr> (mock_handler IDLE None))
       = mock_handler IDLE None
   \<and> worker_calls (snd (put_worker_state mock_ops \<lparr>new_state = RUNNING, defer' = None\<rparr> (mock_handler IDLE None))) = []
   \<and> status (fst (put_worker_state mock_ops \<lparr>new_state = RUNNING, defer' = None\<rparr> (mock_handler RUNNING None))) = 400"
  using set_state_rejects_outside_table
          [of mock_ops "mock_handler IDLE None" "\<lparr>new_state = RUNNING, defer' = None\<rparr>"]
        set_state_rejects_outside_table
          [of mock_ops "mock_handler RUNNING None" "\<lparr>new_state = RUNNING, defer' = None\<rparr>"]
  by (simp add: mock_ops_def mock_handler_def)

text \<open>
  Claim C2. Whenever the pair of the worker's current state and the requested state is
  in the table, PUT /worker/state answers 202 and sends the worker exactly one command:
  pause, carrying the request's defer value as it came, when PAUSED is requested, and
  resume when RUNNING is requested. The worker after the request is the worker that
  this one command returned.
\<close>

theorem set_state_accepts_table:
  assumes "(worker_state ops (worker h), new_state req) \<in> {(RUNNING, PAUSED), (PAUSED, RUNNING)}"
  shows "status (fst (put_worker_state ops req h)) = 202
         \<and> worker_calls (snd (put_worker_state ops req h))
             = worker_calls h @ [if new_state req = PAUSED then Pause (defer' req) else Resume]
         \<and> worker (snd (put_worker_state ops req h))
             = (if new_state req = PAUSED then worker_pause ops (defer' req) (worker h)
                else worker_resume ops (worker h))"
proof -
  from assms consider
      (pause) "worker_state ops (worker h) = RUNNING" "new_state req = PAUSED"
    | (resume) "worker_state ops (worker h) = PAUSED" "new_state req = RUNNING"
    by auto
  then show ?thesis
  proof cases
    case pause
    then show ?thesis
      unfolding put_worker_state_def
      by (simp add: set_state_pause call_pause_def)
  next
    case resume
    then show ?thesis
      unfolding put_worker_state_def
      by (simp add: set_state_resume call_resume_def)
  qed
qed

theorem set_state_accepts_table_witness:
  "status (fst (put_worker_state mock_ops \<lparr>new_state = PAUSED, defer' = Some True\<rparr> (mock_handler RUNNING None))) = 202
   \<and> worker_calls (snd (put_worker_state mock_ops \<lparr>new_state = PAUSED, defer' = Some True\<rparr> (mock_handler RUNNING None)))
       = [Pause (Some True)]
   \<and> mock_state (worker (snd (put_worker_state mock_ops \<lparr>new_state = PAUSED, defer' = Some True\<rparr> (mock_handler RUNNING None))))
       = PAUSED
   \<and> worker_calls (snd (put_worker_state mock_ops \<lparr>new_state = RUNNING, defer' = None\<rparr> (mock_handler PAUSED None)))
       = [Resume]"
  using set_state_accepts_table
          [of mock_ops "mock_handler RUNNING None" "\<lparr>new_state = PAUSED, defer' = Some True\<rparr>"]
        set_state_accepts_table
          [of mock_ops "mock_handler PAUSED None" "\<lparr>new_state = RUNNING, defer' = None\<rparr>"]
  by (simp add: mock_ops_def mock_handler_def)



text \<open>
  Claim C8. GET /worker/state only reads: it returns the worker's state and leaves the
  handler as it was, so a second request right after the first gives the same answer.
\<close>

theorem get_state_is_pure_read:
  "get_state ops h = (worker_state ops (worker h), h)
   \<and> snd (get_worker_state ops h) = h
   \<and> content (fst (get_worker_state ops h)) = Model (worker_state ops (worker h))
   \<and> fst (get_worker_state ops (snd (get_worker_state ops h))) = fst (get_worker_state ops h)"
  by (simp add: get_state_def get_worker_state_def)

section \<open>Properties of the task routes\<close>

lemma update_task_busy:
  assumes "worker_get_active_task ops (worker h) = Some a" and "\<not> is_complete a"
  shows "update_task ops t h = (HTTPException 409 ''Worker already active'', h)"
  using assms by (simp add: update_task_def)

lemma update_task_free:
  assumes "\<And>a. worker_get_active_task ops (worker h) = Some a \<Longrightarrow> is_complete a"
  shows "update_task ops t h =
           (Returns t, case worker_task_id t of Some tid \<Rightarrow> call_begin_task ops tid h | None \<Rightarrow> h)"
  using assms by (auto simp add: update_task_def split: option.splits)

text \<open>
  Claim C3. PUT /worker/task answers 409 whenever the worker has an active task that is
  not complete; the handler is then left as it was and begin_task is not sent. When
  there is no such task and the request carries a task identifier, begin_task is sent
  to the worker once, with that identifier.
\<close>

theorem update_task_conflict:
  "(worker_get_active_task ops (worker h) = Some a \<and> \<not> is_complete a
      \<longrightarrow> status (fst (put_worker_task ops t h)) = 409
          \<and> snd (put_worker_task ops t h) = h
          \<and> worker_calls (snd (put_worker_task ops t h)) = worker_calls h)
   \<and> ((\<forall>b. worker_get_active_task ops (worker h) = Some b \<longrightarrow> is_complete b)
        \<and> worker_task_id t = Some tid
      \<longrightarrow> status (fst (put_worker_task ops t h)) = 200
          \<and> worker_calls (snd (put_worker_task ops t h)) = worker_calls h @ [Begin_task tid]
          \<and> worker (snd (put_worker_task ops t h)) = worker_begin_task ops tid (worker h))"
proof (intro conjI impI)
  assume busy: "worker_get_active_task ops (worker h) = Some a \<and> \<not> is_complete a"
  then have "put_worker_task ops t h =
               (add_api_version_header
                  (fastapi_response 200 new_Response (HTTPException 409 ''Worker already active'')), h)"
    unfolding put_worker_task_def by (simp add: update_task_busy [of ops h a])
  then show "status (fst (put_worker_task ops t h)) = 409"
    and "snd (put_worker_task ops t h) = h"
    and "worker_calls (snd (put_worker_task ops t h)) = worker_calls h"
    by simp_all
next
  assume free: "(\<forall>b. worker_get_active_task ops (worker h) = Some b \<longrightarrow> is_complete b)
                \<and> worker_task_id t = Some tid"
  then have "put_worker_task ops t h =
               (add_api_version_header (fastapi_response 200 new_Response (Returns t)),
                call_begin_task ops tid h)"
    unfolding put_worker_task_def by (simp add: update_task_free)
  then show "status (fst (put_worker_task ops t h)) = 200"
    and "worker_calls (snd (put_worker_task ops t h)) = worker_calls h @ [Begin_task tid]"
    and "worker (snd (put_worker_task ops t h)) = worker_begin_task ops tid (worker h)"
    by (simp_all add: new_Response_def call_begin_task_def)
qed

theorem update_task_conflict_witness:
  "status (fst (put_worker_task mock_ops \<lparr>worker_task_id = Some ''task-0''\<rparr>
                  (mock_handler RUNNING (Some tracked_count)))) = 409
   \<and> snd (put_worker_task mock_ops \<lparr>worker_task_id = Some ''task-0''\<rparr>
            (mock_handler RUNNING (Some tracked_count))) = mock_handler RUNNING (Some tracked_count)
   \<and> worker_calls (snd (put_worker_task mock_ops \<lparr>worker_task_id = Some ''task-0''\<rparr>
                          (mock_handler IDLE None))) = [Begin_task ''task-0'']
   \<and> mock_active (worker (snd (put_worker_task mock_ops \<lparr>worker_task_id = Some ''task-0''\<rparr>
                                 (mock_handler IDLE None)))) = Some tracked_count"
proof -
  have busy: "worker_get_active_task mock_ops (worker (mock_handler RUNNING (Some tracked_count)))
                = Some tracked_count \<and> \<not> is_complete tracked_count"
    by (simp add: mock_ops_def mock_handler_def tracked_count_def)
  have free: "(\<forall>b. worker_get_active_task mock_ops (worker (mock_handler IDLE None)) = Some b
                 \<longrightarrow> is_complete b)
              \<and> worker_task_id \<lparr>worker_task_id = Some ''task-0''\<rparr> = Some ''task-0''"
    by (simp add: mock_ops_def mock_handler_def)
  from busy update_task_conflict
         [of mock_ops "mock_handler RUNNING (Some tracked_count)" tracked_count
             "\<lparr>worker_task_id = Some ''task-0''\<rparr>" "''task-0''"]
  have one: "status (fst (put_worker_task mock_ops \<lparr>worker_task_id = Some ''task-0''\<rparr>
                  (mock_handler RUNNING (Some tracked_count)))) = 409
      \<and> snd (put_worker_task mock_ops \<lparr>worker_task_id = Some ''task-0''\<rparr>
            (mock_handler RUNNING (Some tracked_count))) = mock_handler RUNNING (Some tracked_count)"
    by blast
  from free update_task_conflict
         [of mock_ops "mock_handler IDLE None" tracked_count
             "\<lparr>worker_task_id = Some ''task-0''\<rparr>" "''task-0''"]
  have two: "worker_calls (snd (put_worker_task mock_ops \<lparr>worker_task_id = Some ''task-0''\<rparr>
                          (mock_handler IDLE None)))
               = worker_calls (mock_handler IDLE None) @ [Begin_task ''task-0'']
      \<and> worker (snd (put_worker_task mock_ops \<lparr>worker_task_id = Some ''task-0''\<rparr>
                          (mock_handler IDLE None)))
               = worker_begin_task mock_ops ''task-0'' (worker (mock_handler IDLE None))"
    by blast
  from one two show ?thesis
    by (simp add: mock_ops_def mock_handler_def mock_begin_def)
qed

text \<open>
  Claim C10. Every answer of PUT /worker/task other than 409 is 200 with the request's
  WorkerTask as its body, whatever task the worker then holds; with a null task
  identifier and no incomplete active task the route answers so and sends the worker
  nothing.
\<close>

theorem update_task_echoes_request:
  "(status (fst (put_worker_task ops t h)) \<noteq> 409
      \<longrightarrow> status (fst (put_worker_task ops t h)) = 200
          \<and> content (fst (put_worker_task ops t h)) = Model t)
   \<and> ((\<forall>b. worker_get_active_task ops (worker h) = Some b \<longrightarrow> is_complete b)
        \<and> worker_task_id t = None
      \<longrightarrow> status (fst (put_worker_task ops t h)) = 200
          \<and> content (fst (put_worker_task ops t h)) = Model t
          \<and> snd (put_worker_task ops t h) = h)"
proof (cases "\<forall>b. worker_get_active_task ops (worker h) = Some b \<longrightarrow> is_complete b")
  case True
  then have "put_worker_task ops t h =
               (add_api_version_header (fastapi_response 200 new_Response (Returns t)),
                case worker_task_id t of Some tid \<Rightarrow> call_begin_task ops tid h | None \<Rightarrow> h)"
    unfolding put_worker_task_def by (simp add: update_task_free)
  then show ?thesis
    by (simp add: new_Response_def)
next
  case False
  then obtain a where "worker_get_active_task ops (worker h) = Some a" and "\<not> is_complete a"
    by blast
  then have "put_worker_task ops t h =
               (add_api_version_header
                  (fastapi_response 200 new_Response (HTTPException 409 ''Worker already active'')), h)"
    unfolding put_worker_task_def by (simp add: update_task_busy [of ops h a])
  with False show ?thesis
    by simp
qed

theorem update_task_echoes_request_witness:
  "content (fst (put_worker_task mock_ops \<lparr>worker_task_id = None\<rparr>
                   (mock_handler IDLE (Some finished_count)))) = Model \<lparr>worker_task_id = None\<rparr>
   \<and> snd (put_worker_task mock_ops \<lparr>worker_task_id = None\<rparr> (mock_handler IDLE (Some finished_count)))
       = mock_handler IDLE (Some finished_count)
   \<and> worker_get_active_task mock_ops
       (worker (snd (put_worker_task mock_ops \<lparr>worker_task_id = None\<rparr>
                       (mock_handler IDLE (Some finished_count))))) = Some finished_count
   \<and> status (fst (put_worker_task mock_ops \<lparr>worker_task_id = Some ''nothing''\<rparr>
                    (mock_handler IDLE None))) \<noteq> 409
   \<and> content (fst (put_worker_task mock_ops \<lparr>worker_task_id = Some ''nothing''\<rparr>
                     (mock_handler IDLE None))) = Model \<lparr>worker_task_id = Some ''nothing''\<rparr>"
proof -
  have free: "(\<forall>b. worker_get_active_task mock_ops (worker (mock_handler IDLE (Some finished_count))) = Some b
                 \<longrightarrow> is_complete b)
              \<and> worker_task_id \<lparr>worker_task_id = None\<rparr> = None"
    by (simp add: mock_ops_def mock_handler_def finished_count_def)
  from free update_task_echoes_request
         [of mock_ops "\<lparr>worker_task_id = None\<rparr>" "mock_handler IDLE (Some finished_count)"]
  have one: "content (fst (put_worker_task mock_ops \<lparr>worker_task_id = None\<rparr>
                   (mock_handler IDLE (Some finished_count)))) = Model \<lparr>worker_task_id = None\<rparr>
     \<and> snd (put_worker_task mock_ops \<lparr>worker_task_id = None\<rparr> (mock_handler IDLE (Some finished_count)))
       = mock_handler IDLE (Some finished_count)"
    by blast
  have ok: "status (fst (put_worker_task mock_ops \<lparr>worker_task_id = Some ''nothing''\<rparr>
                    (mock_handler IDLE None))) \<noteq> 409"
    by (simp add: put_worker_task_def update_task_def mock_ops_def mock_handler_def
          call_begin_task_def new_Response_def)
  from ok update_task_echoes_request
         [of mock_ops "\<lparr>worker_task_id = Some ''nothing''\<rparr>" "mock_handler IDLE None"]
  have two: "content (fst (put_worker_task mock_ops \<lparr>worker_task_id = Some ''nothing''\<rparr>
                     (mock_handler IDLE None))) = Model \<lparr>worker_task_id = Some ''nothing''\<rparr>"
    by blast
  from one two ok show ?thesis
    by (simp add: mock_ops_def mock_handler_def)
qed

text \<open>
  Claim C6. POST /tasks answers 201; the body carries the identifier that the worker's
  submit_task returned for this task, and the Location header is the request's URL,
  a slash and that identifier. The task is submitted to the worker once.
\<close>

theorem submit_task_created:
  "status (fst (post_tasks ops request t h)) = 201
   \<and> content (fst (post_tasks ops request t h))
       = Model \<lparr>response_task_id = fst (worker_submit_task ops t (worker h))\<rparr>
   \<and> response_headers (fst (post_tasks ops request t h)) ''Location''
       = Some (url request @ ''/'' @ fst (worker_submit_task ops t (worker h)))
   \<and> worker (snd (post_tasks ops request t h)) = snd (worker_submit_task ops t (worker h))
   \<and> worker_calls (snd (post_tasks ops request t h)) = worker_calls h @ [Submit_task t]"
proof -
  obtain tid w' where sub: "worker_submit_task ops t (worker h) = (tid, w')"
    by (cases "worker_submit_task ops t (worker h)")
  then have "post_tasks ops request t h =
          (add_api_version_header
             (fastapi_response 201
                (new_Response\<lparr>headers := (headers new_Response)(''Location'' \<mapsto> url request @ ''/'' @ tid)\<rparr>)
                (Returns \<lparr>response_task_id = tid\<rparr>)),
           h\<lparr>worker := w', worker_calls := worker_calls h @ [Submit_task t]\<rparr>)"
    by (simp add: post_tasks_def submit_task_def call_submit_task_def)
  with sub show ?thesis
    by (simp add: new_Response_def add_api_version_header_def fastapi_response_def)
qed

section \<open>Properties of the look-ups\<close>

text \<open>
  Claim C7. GET /tasks/{task_id}, GET /plans/{name} and GET /devices/{name} answer 404
  with the detail "Item not found" for an identifier that is not known, and leave the
  handler as it was; for a known identifier they answer 200 with the record found.
\<close>

theorem unknown_lookup_is_not_found:
  "(worker_get_pending_task ops tid (worker h) = None
      \<longrightarrow> status (fst (get_tasks_by_id ops tid h)) = 404
          \<and> content (fst (get_tasks_by_id ops tid h)) = Detail ''Item not found''
          \<and> snd (get_tasks_by_id ops tid h) = h)
   \<and> (worker_get_pending_task ops tid (worker h) = Some t
      \<longrightarrow> status (fst (get_tasks_by_id ops tid h)) = 200
          \<and> content (fst (get_tasks_by_id ops tid h)) = Model t
          \<and> snd (get_tasks_by_id ops tid h) = h)
   \<and> (context_plans h nm = None
      \<longrightarrow> status (fst (get_plans_by_name from_plan nm h)) = 404
          \<and> content (fst (get_plans_by_name from_plan nm h)) = Detail ''Item not found''
          \<and> snd (get_plans_by_name from_plan nm h) = h)
   \<and> (context_plans h nm = Some p
      \<longrightarrow> status (fst (get_plans_by_name from_plan nm h)) = 200
          \<and> content (fst (get_plans_by_name from_plan nm h)) = Model (from_plan p)
          \<and> snd (get_plans_by_name from_plan nm h) = h)
   \<and> (context_devices h nm = None
      \<longrightarrow> status (fst (get_devices_by_name from_device nm h)) = 404
          \<and> content (fst (get_devices_by_name from_device nm h)) = Detail ''Item not found''
          \<and> snd (get_devices_by_name from_device nm h) = h)
   \<and> (context_devices h nm = Some d
      \<longrightarrow> status (fst (get_devices_by_name from_device nm h)) = 200
          \<and> content (fst (get_devices_by_name from_device nm h)) = Model (from_device d)
          \<and> snd (get_devices_by_name from_device nm h) = h)"
proof -
  have task: "get_task ops tid h =
                (case worker_get_pending_task ops tid (worker h) of
                   Some t \<Rightarrow> Returns t | None \<Rightarrow> HTTPException 404 ''Item not found'', h)"
    by (simp add: get_task_def split: option.splits)
  have plan: "get_plan_by_name from_plan nm h =
                (case context_plans h nm of
                   Some p \<Rightarrow> Returns (from_plan p) | None \<Rightarrow> HTTPException 404 ''Item not found'', h)"
    by (simp add: get_plan_by_name_def split: option.splits)
  have device: "get_device_by_name from_device nm h =
                (case context_devices h nm of
                   Some d \<Rightarrow> Returns (from_device d) | None \<Rightarrow> HTTPException 404 ''Item not found'', h)"
    by (simp add: get_device_by_name_def split: option.splits)
  show ?thesis
    unfolding get_tasks_by_id_def get_plans_by_name_def get_devices_by_name_def task plan device
    by (simp add: new_Response_def)
qed

theorem unknown_lookup_is_not_found_witness:
  "status (fst (get_tasks_by_id mock_ops ''task-9'' (mock_handler IDLE None))) = 404
   \<and> content (fst (get_tasks_by_id mock_ops ''task-0'' (mock_handler IDLE None))) = Model tracked_count
   \<and> status (fst (get_plans_by_name (\<lambda>p. p) ''no-plan'' (mock_handler IDLE None))) = 404
   \<and> content (fst (get_plans_by_name (\<lambda>p. p) ''my-plan'' (mock_handler IDLE None))) = Model ''my-plan''
   \<and> status (fst (get_devices_by_name (\<lambda>d. d) ''no-device'' (mock_handler IDLE None))) = 404
   \<and> content (fst (get_devices_by_name (\<lambda>d. d) ''my-device'' (mock_handler IDLE None))) = Model ''my-device''"
proof -
  let ?h = "mock_handler IDLE None"
  have a: "worker_get_pending_task mock_ops ''task-9'' (worker ?h) = None"
    and b: "worker_get_pending_task mock_ops ''task-0'' (worker ?h) = Some tracked_count"
    and c: "context_plans ?h ''no-plan'' = None"
    and d: "context_plans ?h ''my-plan'' = Some ''my-plan''"
    and e: "context_devices ?h ''no-device'' = None"
    and f: "context_devices ?h ''my-device'' = Some ''my-device''"
    by (simp_all add: mock_ops_def mock_handler_def)
  from a unknown_lookup_is_not_found [of mock_ops "''task-9''" ?h]
  have 1: "status (fst (get_tasks_by_id mock_ops ''task-9'' ?h)) = 404" by blast
  from b unknown_lookup_is_not_found [of mock_ops "''task-0''" ?h tracked_count]
  have 2: "content (fst (get_tasks_by_id mock_ops ''task-0'' ?h)) = Model tracked_count" by blast
  from c unknown_lookup_is_not_found [of _ _ ?h _ "''no-plan''" "\<lambda>p. p"]
  have 3: "status (fst (get_plans_by_name (\<lambda>p. p) ''no-plan'' ?h)) = 404" by blast
  from d unknown_lookup_is_not_found [of _ _ ?h _ "''my-plan''" "\<lambda>p. p" "''my-plan''"]
  have 4: "content (fst (get_plans_by_name (\<lambda>p. p) ''my-plan'' ?h)) = Model ''my-plan''" by blast
  from e unknown_lookup_is_not_found [of _ _ ?h _ "''no-device''" _ _ "\<lambda>d. d"]
  have 5: "status (fst (get_devices_by_name (\<lambda>d. d) ''no-device'' ?h)) = 404" by blast
  from f unknown_lookup_is_not_found [of _ _ ?h _ "''my-device''" _ _ "\<lambda>d. d" "''my-device''"]
  have 6: "content (fst (get_devices_by_name (\<lambda>d. d) ''my-device'' ?h)) = Model ''my-device''" by blast
  from 1 2 3 4 5 6 show ?thesis by simp
qed

section \<open>Properties of the command-line client\<close>

lemma check_connection_caught:
  assumes "func s = (Raised ConnectionError, s')"
  shows "check_connection func s =
           (Returned (), s'\<lparr>events := events s' @ [Print ''Failed to establish connection to FastAPI server.'']\<rparr>)"
  using assms by (simp add: check_connection_def print'_def)

lemma check_connection_world:
  "world (snd (check_connection func s)) = world (snd (func s))"
  by (cases "func s") (auto simp add: check_connection_def print'_def split: outcome.splits exception.splits)

lemma unreachable_run:
  "run_plan unreachable_ops local_config ''count'' (Some ''{}'') start_state
     = (Raised ConnectionError,
        \<lparr>world = (),
         events = [Amq_enter,
                   Requests_put ''http://localhost:8000/task''
                     (Some (JObject [(''name'', JString ''count''), (''params'', JObject [])])),
                   Amq_exit]\<rparr>)"
  by (simp add: run_plan_def with_amq_client_def run_plan_body_def and_then_def external_def
        evaluate_def unreachable_ops_def answering_ops_def start_state_def api_url_def
        local_config_def str_nat.simps)


text \<open>
  Claim C9. A command wrapped by check_connection whose body raises ConnectionError
  returns normally with the message "Failed to establish connection to FastAPI server."
  printed last, and the wrapper invokes the body exactly once, whatever the body does.
  So it is for the three controller commands: plans and devices when their request
  cannot reach the server, and run when run_plan raises ConnectionError.
\<close>

theorem check_connection_reports_once:
  "(func s = (Raised ConnectionError, s')
      \<longrightarrow> check_connection func s =
            (Returned (),
             s'\<lparr>events := events s' @ [Print ''Failed to establish connection to FastAPI server.'']\<rparr>))
   \<and> fst (world (snd (check_connection (counted func) c))) = Suc (fst (world c))
   \<and> (requests_get ops (api_url config ''/plans'') (world s) = (Raised ConnectionError, x)
      \<longrightarrow> controller_plans ops config s =
            (Returned (),
             \<lparr>world = x,
              events = events s @ [Requests_get (api_url config ''/plans''),
                                   Print ''Failed to establish connection to FastAPI server.'']\<rparr>))
   \<and> (requests_get ops (api_url config ''/devices'') (world s) = (Raised ConnectionError, x)
      \<longrightarrow> controller_devices ops config s =
            (Returned (),
             \<lparr>world = x,
              events = events s @ [Requests_get (api_url config ''/devices''),
                                   Print ''Failed to establish connection to FastAPI server.'']\<rparr>))
   \<and> (run_plan ops config nm parameters s = (Raised ConnectionError, s')
      \<longrightarrow> controller_run ops config nm parameters s =
            (Returned (),
             s'\<lparr>events := events s' @ [Print ''Failed to establish connection to FastAPI server.'']\<rparr>))"
proof (intro conjI impI)
  assume "func s = (Raised ConnectionError, s')"
  then show "check_connection func s =
            (Returned (),
             s'\<lparr>events := events s' @ [Print ''Failed to establish connection to FastAPI server.'']\<rparr>)"
    by (rule check_connection_caught)
next
  show "fst (world (snd (check_connection (counted func) c))) = Suc (fst (world c))"
    unfolding check_connection_world
    by (simp add: counted_def split: prod.splits)
next
  assume "requests_get ops (api_url config ''/plans'') (world s) = (Raised ConnectionError, x)"
  then have "cli_get_plans ops config s =
               (Raised ConnectionError,
                \<lparr>world = x, events = events s @ [Requests_get (api_url config ''/plans'')]\<rparr>)"
    by (simp add: cli_get_plans_def and_then_def external_def)
  then show "controller_plans ops config s =
            (Returned (),
             \<lparr>world = x,
              events = events s @ [Requests_get (api_url config ''/plans''),
                                   Print ''Failed to establish connection to FastAPI server.'']\<rparr>)"
    unfolding controller_plans_def by (simp add: check_connection_caught)
next
  assume "requests_get ops (api_url config ''/devices'') (world s) = (Raised ConnectionError, x)"
  then have "cli_get_devices ops config s =
               (Raised ConnectionError,
                \<lparr>world = x, events = events s @ [Requests_get (api_url config ''/devices'')]\<rparr>)"
    by (simp add: cli_get_devices_def and_then_def external_def)
  then show "controller_devices ops config s =
            (Returned (),
             \<lparr>world = x,
              events = events s @ [Requests_get (api_url config ''/devices''),
                                   Print ''Failed to establish connection to FastAPI server.'']\<rparr>)"
    unfolding controller_devices_def by (simp add: check_connection_caught)
next
  assume "run_plan ops config nm parameters s = (Raised ConnectionError, s')"
  then show "controller_run ops config nm parameters s =
            (Returned (),
             s'\<lparr>events := events s' @ [Print ''Failed to establish connection to FastAPI server.'']\<rparr>)"
    unfolding controller_run_def by (rule check_connection_caught)
qed

theorem check_connection_reports_once_witness:
  "controller_plans unreachable_ops local_config start_state
     = (Returned (),
        \<lparr>world = (),
         events = [Requests_get ''http://localhost:8000/plans'',
                   Print ''Failed to establish connection to FastAPI server.'']\<rparr>)
   \<and> controller_devices unreachable_ops local_config start_state
     = (Returned (),
        \<lparr>world = (),
         events = [Requests_get ''http://localhost:8000/devices'',
                   Print ''Failed to establish connection to FastAPI server.'']\<rparr>)
   \<and> controller_run unreachable_ops local_config ''count'' (Some ''{}'') start_state
     = (Returned (),
        \<lparr>world = (),
         events = [Amq_enter,
                   Requests_put ''http://localhost:8000/task''
                     (Some (JObject [(''name'', JString ''count''), (''params'', JObject [])])),
                   Amq_exit,
                   Print ''Failed to establish connection to FastAPI server.'']\<rparr>)"
proof -
  have url: "api_url local_config ''/plans'' = ''http://localhost:8000/plans''"
            "api_url local_config ''/devices'' = ''http://localhost:8000/devices''"
    by (simp_all add: api_url_def local_config_def str_nat.simps)
  have a: "requests_get unreachable_ops (api_url local_config ''/plans'') (world start_state)
             = (Raised ConnectionError, ())"
    and b: "requests_get unreachable_ops (api_url local_config ''/devices'') (world start_state)
             = (Raised ConnectionError, ())"
    by (simp_all add: unreachable_ops_def)
  note inst = check_connection_reports_once
               [of "run_plan unreachable_ops local_config ''count'' (Some ''{}'')" start_state _
                   _ unreachable_ops local_config "()" "''count''" "Some ''{}''"]
  from a inst have 1: "controller_plans unreachable_ops local_config start_state =
            (Returned (),
             \<lparr>world = (),
              events = events start_state @ [Requests_get (api_url local_config ''/plans''),
                                   Print ''Failed to establish connection to FastAPI server.'']\<rparr>)"
    by blast
  from b inst have 2: "controller_devices unreachable_ops local_config start_state =
            (Returned (),
             \<lparr>world = (),
              events = events start_state @ [Requests_get (api_url local_config ''/devices''),
                                   Print ''Failed to establish connection to FastAPI server.'']\<rparr>)"
    by blast
  from unreachable_run inst
  have 3: "controller_run unreachable_ops local_config ''count'' (Some ''{}'') start_state =
            (Returned (),
             \<lparr>world = (),
         events = [Amq_enter,
                   Requests_put ''http://localhost:8000/task''
                     (Some (JObject [(''name'', JString ''count''), (''params'', JObject [])])),
                   Amq_exit]\<rparr>\<lparr>events := events \<lparr>world = (),
         events = [Amq_enter,
                   Requests_put ''http://localhost:8000/task''
                     (Some (JObject [(''name'', JString ''count''), (''params'', JObject [])])),
                   Amq_exit]\<rparr> @ [Print ''Failed to establish connection to FastAPI server.'']\<rparr>)"
    by blast
  from 1 2 3 show ?thesis
    by (simp add: url start_state_def)
qed












end
